theory Spec2Isabelle
  imports Complex_Main "HOL-Library.Char_ord" "HOL-Library.List_Lexorder" "HOL-Library.Sublist"
begin

section \<open>Strings\<close>

text \<open>
  Token identifiers are JavaScript strings. They are modelled as lists of 8-bit
  characters; \<open><\<close> on them (\<open>List_Lexorder\<close> over \<open>Char_ord\<close>) is the
  code-unit-wise lexicographic order of JavaScript's \<open><\<close> on strings, a proper prefix
  being smaller.

  \<open>toLowerCase\<close> maps the capitals of this character range (A-Z, and the Latin-1
  capitals 0xC0-0xDE without the multiplication sign 0xD7) to the letter 32 code
  points higher, which is setting bit 5; every other character is unchanged.
\<close>

definition isUpper :: "char \<Rightarrow> bool" where
  "isUpper c = (let n = (of_char c :: nat) in
     (65 \<le> n \<and> n \<le> 90) \<or> (192 \<le> n \<and> n \<le> 222 \<and> n \<noteq> 215))"

fun lowerChar :: "char \<Rightarrow> char" where
  "lowerChar (Char b0 b1 b2 b3 b4 b5 b6 b7) =
     (if isUpper (Char b0 b1 b2 b3 b4 b5 b6 b7) then Char b0 b1 b2 b3 b4 True b6 b7
      else Char b0 b1 b2 b3 b4 b5 b6 b7)"

definition toLowerCase :: "string \<Rightarrow> string" where
  "toLowerCase s = map lowerChar s"

text \<open>\<open>x || d\<close> on a string \<open>x\<close>: the empty string is the only falsy string.\<close>

definition orDefault :: "string \<Rightarrow> string \<Rightarrow> string" where
  "orDefault x d = (if x = [] then d else x)"

section \<open>Numbers\<close>

text \<open>
  A JavaScript Number is an IEEE 754 double. \<open>Fin r\<close> is the finite double of real
  value \<open>r\<close> (\<open>Fin 0\<close> is +0), \<open>NegZero\<close> is -0. The operations follow the case
  analysis of the ECMAScript specification (\<open>Math.sqrt\<close>, \<open>Number::multiply\<close>,
  \<open>Number::divide\<close>, \<open>Math.floor\<close>, \<open>BigInt\<close>). Where the specification rounds a
  real result to a Number, the rounding function is the parameter \<open>rd\<close>: nothing is
  assumed about it, so what is proved holds for every rounding.
\<close>

datatype number = NaN | PosInf | NegInf | NegZero | Fin real

fun isZero :: "number \<Rightarrow> bool" where
  "isZero NegZero = True"
| "isZero (Fin r) = (r = 0)"
| "isZero _ = False"

fun isInf :: "number \<Rightarrow> bool" where
  "isInf PosInf = True"
| "isInf NegInf = True"
| "isInf _ = False"

fun isNeg :: "number \<Rightarrow> bool" where
  "isNeg NegInf = True"
| "isNeg NegZero = True"
| "isNeg (Fin r) = (r < 0)"
| "isNeg _ = False"

fun realOf :: "number \<Rightarrow> real" where
  "realOf (Fin r) = r"
| "realOf _ = 0"

definition signedZero :: "bool \<Rightarrow> number" where
  "signedZero neg = (if neg then NegZero else Fin 0)"

definition signedInf :: "bool \<Rightarrow> number" where
  "signedInf neg = (if neg then NegInf else PosInf)"

text \<open>\<open>x > 0\<close> on Numbers: false for NaN, both zeros and everything negative.\<close>

fun gtZero :: "number \<Rightarrow> bool" where
  "gtZero PosInf = True"
| "gtZero (Fin r) = (0 < r)"
| "gtZero _ = False"

definition numTimes :: "(real \<Rightarrow> number) \<Rightarrow> number \<Rightarrow> number \<Rightarrow> number" where
  "numTimes rd a b =
     (if a = NaN \<or> b = NaN then NaN
      else if (isInf a \<and> isZero b) \<or> (isZero a \<and> isInf b) then NaN
      else if isInf a \<or> isInf b then signedInf (isNeg a \<noteq> isNeg b)
      else if isZero a \<or> isZero b then signedZero (isNeg a \<noteq> isNeg b)
      else rd (realOf a * realOf b))"

definition numDivide :: "(real \<Rightarrow> number) \<Rightarrow> number \<Rightarrow> number \<Rightarrow> number" where
  "numDivide rd a b =
     (if a = NaN \<or> b = NaN then NaN
      else if (isInf a \<and> isInf b) \<or> (isZero a \<and> isZero b) then NaN
      else if isInf a \<or> isZero b then signedInf (isNeg a \<noteq> isNeg b)
      else if isInf b \<or> isZero a then signedZero (isNeg a \<noteq> isNeg b)
      else rd (realOf a / realOf b))"

fun Math_sqrt :: "(real \<Rightarrow> number) \<Rightarrow> number \<Rightarrow> number" where
  "Math_sqrt rd NaN = NaN"
| "Math_sqrt rd PosInf = PosInf"
| "Math_sqrt rd NegInf = NaN"
| "Math_sqrt rd NegZero = NegZero"
| "Math_sqrt rd (Fin r) = (if r = 0 then Fin 0 else if r < 0 then NaN else rd (sqrt r))"

fun Math_floor :: "number \<Rightarrow> number" where
  "Math_floor (Fin r) = Fin (of_int \<lfloor>r\<rfloor>)"
| "Math_floor x = x"

section \<open>Errors\<close>

text \<open>
  Everything that can reject inside \<open>main\<close>: the explicit
  \<open>throw new Error("Invalid target price input.")\<close>, the RangeError of \<open>BigInt\<close> on a
  Number that is not an integer, the error of \<open>parseEther\<close> on a string that is not a
  decimal number, a rejected \<open>writeContract\<close> and a rejected
  \<open>waitForTransactionReceipt\<close>. The rejection reaches \<open>main().catch\<close>, which logs it
  and exits with status 1.
\<close>

datatype error =
    InvalidPriceError
  | RangeError
  | InvalidDecimalNumberError
  | SubmissionError
  | ConfirmationError

fun BigInt :: "number \<Rightarrow> error + int" where
  "BigInt (Fin r) = (if of_int \<lfloor>r\<rfloor> = r then Inr \<lfloor>r\<rfloor> else Inl RangeError)"
| "BigInt NegZero = Inr 0"
| "BigInt _ = Inl RangeError"

section \<open>Constants\<close>

definition WETH_ADDRESS :: string where
  "WETH_ADDRESS = ''0x7b79995e5f793A07Bc00c21412e50Ecae098E7f9''"

definition NPM_ADDRESS :: string where
  "NPM_ADDRESS = ''0x1238536071e1c677a632429e3655c799b22cda52''"

definition TICK_LOWER :: int where
  "TICK_LOWER = - 887220"

definition TICK_UPPER :: int where
  "TICK_UPPER = 887220"

definition Q96 :: int where
  "Q96 = 2 ^ 96"

definition maxUint256 :: int where
  "maxUint256 = 2 ^ 256 - 1"

text \<open>\<open>Number(Q96)\<close>: a power of two below the largest double, so the conversion is exact.\<close>

definition Number_Q96 :: number where
  "Number_Q96 = Fin (of_int Q96)"

section \<open>The price encoder\<close>

definition encodePriceSqrt :: "(real \<Rightarrow> number) \<Rightarrow> number \<Rightarrow> error + int" where
  "encodePriceSqrt rd price =
     (let sqrt = Math_sqrt rd price
      in BigInt (Math_floor (numTimes rd sqrt Number_Q96)))"

section \<open>Token order, price orientation, amount placement\<close>

text \<open>
  The three expressions of \<open>main\<close> that depend on the order of the pair, with the
  address of the wrapped native token as the second argument: the canonical pair
  \<open>[token0, token1]\<close> (lines 231-237), the price handed to the encoder (lines 260-263),
  and the string parsed into the amount of a slot (lines 313-322).
\<close>

definition orderTokens :: "string \<Rightarrow> string \<Rightarrow> string \<times> string" where
  "orderTokens tokenAddress weth =
     (let tokenLower = toLowerCase tokenAddress; wethLower = toLowerCase weth
      in if tokenLower < wethLower then (tokenAddress, weth) else (weth, tokenAddress))"

definition orientPrice :: "(real \<Rightarrow> number) \<Rightarrow> string \<Rightarrow> string \<Rightarrow> number \<Rightarrow> number" where
  "orientPrice rd t0 tokenAddress targetTokensPerWeth =
     (if toLowerCase t0 = toLowerCase tokenAddress
      then numDivide rd (Fin 1) targetTokensPerWeth
      else targetTokensPerWeth)"

definition amountStrFor :: "string \<Rightarrow> string \<Rightarrow> string \<Rightarrow> string \<Rightarrow> string" where
  "amountStrFor t tokenAddress amountTokenStr amountWethStr =
     (if toLowerCase t = toLowerCase tokenAddress then amountTokenStr else amountWethStr)"

section \<open>Calls, events and the environment\<close>

type_synonym Hex = string

record MintParams =
  token0 :: string
  token1 :: string
  fee :: number
  tickLower :: int
  tickUpper :: int
  amount0Desired :: int
  amount1Desired :: int
  amount0Min :: int
  amount1Min :: int
  recipient :: string
  deadline :: int

text \<open>
  The four contract calls \<open>main\<close> makes, each with the address it is sent to first:
  \<open>deposit\<close> (with the value sent along), \<open>createAndInitializePoolIfNecessary\<close>
  (token0, token1, fee, sqrtPriceX96), \<open>approve\<close> (spender, value) and \<open>mint\<close>.
\<close>

datatype call =
    deposit string int
  | createAndInitializePoolIfNecessary string string string number int
  | approve string string int
  | mint string MintParams

text \<open>
  What a run leaves behind, in order: a call \<open>writeContract\<close> accepted, with the
  hash it returned; a call \<open>writeContract\<close> rejected; a hash whose receipt
  \<open>waitForTransactionReceipt\<close> returned; a hash on which it rejected.
\<close>

datatype event =
    Submitted call Hex
  | Rejected call
  | Confirmed Hex
  | WaitFailed Hex

text \<open>
  The collaborators of \<open>main\<close> that are not part of the repository: viem's
  \<open>parseEther\<close> (\<open>None\<close> where it throws), JavaScript's \<open>parseFloat\<close>, the rounding of
  double arithmetic, the clock (\<open>Date.now()\<close>, a whole number of milliseconds), and the
  two clients. A client's answer may depend on everything that happened before, so it
  takes the events so far: \<open>walletClient\<close> answers a call with a hash or rejects
  (\<open>None\<close>), \<open>publicClient\<close> answers a hash with a receipt (\<open>True\<close>) or rejects.
\<close>

record env =
  parseEther :: "string \<Rightarrow> int option"
  parseFloat :: "string \<Rightarrow> number"
  roundDouble :: "real \<Rightarrow> number"
  Date_now :: int
  walletClient :: "event list \<Rightarrow> call \<Rightarrow> Hex option"
  publicClient :: "event list \<Rightarrow> Hex \<Rightarrow> bool"

datatype Mode = Init | Add | Wrap

text \<open>
  The answers to the prompts of \<open>main\<close>: the mode, the address of the account of the
  private key, the fee tier (the Number \<open>feeTier\<close>), the trimmed token address, the
  trimmed and lower-cased answer to the wrap question, and the raw answers to the
  questions for the target price, the amount to wrap (the one question of wrap-only
  mode), and the two liquidity amounts.
\<close>

record request =
  mode :: Mode
  account :: string
  feeTier :: number
  tokenAddress :: string
  targetAnswer :: string
  wrapAnswer :: string
  wrapAmountAnswer :: string
  amountTokenAnswer :: string
  amountWethAnswer :: string

definition targetTokensPerWethStr :: "request \<Rightarrow> string" where
  "targetTokensPerWethStr rq =
     (if mode rq = Init then orDefault (targetAnswer rq) ''1'' else ''1'')"

definition wrapAmountEth :: "request \<Rightarrow> string" where
  "wrapAmountEth rq =
     (if wrapAnswer rq = ''y'' \<or> wrapAnswer rq = ''yes''
      then orDefault (wrapAmountAnswer rq) ''0.2''
      else ''0'')"

definition amountTokenStr :: "request \<Rightarrow> string" where
  "amountTokenStr rq = orDefault (amountTokenAnswer rq) ''400''"

definition amountWethStr :: "request \<Rightarrow> string" where
  "amountWethStr rq = orDefault (amountWethAnswer rq) ''0.2''"

section \<open>The orchestration\<close>

text \<open>
  A step of \<open>main\<close> takes the events so far and returns its result, or the error it
  rejected with, and the events after it. \<open>bindE\<close> is sequencing of awaited
  statements: an error ends the run, as the rejection of \<open>main\<close> does (lines 364-367).
\<close>

type_synonym 'a io = "event list \<Rightarrow> (error + 'a) \<times> event list"

definition returnE :: "'a \<Rightarrow> 'a io" where
  "returnE x = (\<lambda>tr. (Inr x, tr))"

definition throwE :: "error \<Rightarrow> 'a io" where
  "throwE e = (\<lambda>tr. (Inl e, tr))"

definition bindE :: "'a io \<Rightarrow> ('a \<Rightarrow> 'b io) \<Rightarrow> 'b io" where
  "bindE m f = (\<lambda>tr. case m tr of (Inl e, tr') \<Rightarrow> (Inl e, tr') | (Inr x, tr') \<Rightarrow> f x tr')"

definition liftE :: "error + 'a \<Rightarrow> 'a io" where
  "liftE r = (\<lambda>tr. (r, tr))"

definition parseEtherE :: "env \<Rightarrow> string \<Rightarrow> int io" where
  "parseEtherE e s =
     (case parseEther e s of None \<Rightarrow> throwE InvalidDecimalNumberError | Some v \<Rightarrow> returnE v)"

definition writeContract :: "env \<Rightarrow> call \<Rightarrow> Hex io" where
  "writeContract e c = (\<lambda>tr.
     case walletClient e tr c of
       None \<Rightarrow> (Inl SubmissionError, tr @ [Rejected c])
     | Some h \<Rightarrow> (Inr h, tr @ [Submitted c h]))"

definition waitForTransactionReceipt :: "env \<Rightarrow> Hex \<Rightarrow> unit io" where
  "waitForTransactionReceipt e h = (\<lambda>tr.
     if publicClient e tr h then (Inr (), tr @ [Confirmed h])
     else (Inl ConfirmationError, tr @ [WaitFailed h]))"

text \<open>
  The wrap (lines 153-169 in wrap-only mode, lines 240-251 in the other two): the same
  three statements, \<open>parseEther\<close>, \<open>writeContract\<close> of the deposit and the wait for its
  receipt. The initialize step is lines 255-284, an approval lines 294-301 and 303-310,
  the mint lines 313-355. Output to the console is not modelled.
\<close>

definition wrapStep :: "env \<Rightarrow> string \<Rightarrow> unit io" where
  "wrapStep e wrapAmount =
     bindE (parseEtherE e wrapAmount) (\<lambda>v.
     bindE (writeContract e (deposit WETH_ADDRESS v)) (\<lambda>wrapHash.
     waitForTransactionReceipt e wrapHash))"

definition initStep :: "env \<Rightarrow> request \<Rightarrow> string \<Rightarrow> string \<Rightarrow> unit io" where
  "initStep e rq t0 t1 =
     (let targetTokensPerWeth = parseFloat e (targetTokensPerWethStr rq)
      in if \<not> gtZero targetTokensPerWeth then throwE InvalidPriceError
         else
           let price = orientPrice (roundDouble e) t0 (tokenAddress rq) targetTokensPerWeth
           in bindE (liftE (encodePriceSqrt (roundDouble e) price)) (\<lambda>sqrtPriceX96.
              bindE (writeContract e
                (createAndInitializePoolIfNecessary NPM_ADDRESS t0 t1 (feeTier rq) sqrtPriceX96))
                (\<lambda>initHash.
              waitForTransactionReceipt e initHash)))"

definition approveStep :: "env \<Rightarrow> string \<Rightarrow> unit io" where
  "approveStep e t =
     bindE (writeContract e (approve t NPM_ADDRESS maxUint256)) (\<lambda>approveHash.
     waitForTransactionReceipt e approveHash)"

text \<open>
  The deadline is \<open>BigInt(Math.floor(Date.now() / 1000) + 600)\<close>. \<open>Date.now()\<close> is a
  whole number of milliseconds of magnitude at most 8.64e15, for which the floor of the
  double quotient is the integer quotient rounded down, and the sum is exact.
\<close>

definition mintStep :: "env \<Rightarrow> request \<Rightarrow> string \<Rightarrow> string \<Rightarrow> unit io" where
  "mintStep e rq t0 t1 =
     bindE (parseEtherE e
       (amountStrFor t0 (tokenAddress rq) (amountTokenStr rq) (amountWethStr rq))) (\<lambda>amount0.
     bindE (parseEtherE e
       (amountStrFor t1 (tokenAddress rq) (amountTokenStr rq) (amountWethStr rq))) (\<lambda>amount1.
     bindE (writeContract e (mint NPM_ADDRESS
       \<lparr> token0 = t0, token1 = t1, fee = feeTier rq,
         tickLower = TICK_LOWER, tickUpper = TICK_UPPER,
         amount0Desired = amount0, amount1Desired = amount1,
         amount0Min = 0, amount1Min = 0,
         recipient = account rq,
         deadline = Date_now e div 1000 + 600 \<rparr>)) (\<lambda>mintHash.
     waitForTransactionReceipt e mintHash)))"

definition main :: "env \<Rightarrow> request \<Rightarrow> unit io" where
  "main e rq =
     (if mode rq = Wrap then wrapStep e (orDefault (wrapAmountAnswer rq) ''0.1'')
      else
        case orderTokens (tokenAddress rq) WETH_ADDRESS of (t0, t1) \<Rightarrow>
          bindE (if wrapAmountEth rq \<noteq> ''0'' then wrapStep e (wrapAmountEth rq)
                 else returnE ()) (\<lambda>_.
          bindE (if mode rq = Init then initStep e rq t0 t1 else returnE ()) (\<lambda>_.
          bindE (approveStep e t0) (\<lambda>_.
          bindE (approveStep e t1) (\<lambda>_.
          mintStep e rq t0 t1)))))"

section \<open>Traces\<close>

text \<open>
  The calls handed to \<open>writeContract\<close> in a run, in order, whether accepted or
  rejected.
\<close>

fun callsOf :: "event list \<Rightarrow> call list" where
  "callsOf [] = []"
| "callsOf (Submitted c h # es) = c # callsOf es"
| "callsOf (Rejected c # es) = c # callsOf es"
| "callsOf (Confirmed h # es) = callsOf es"
| "callsOf (WaitFailed h # es) = callsOf es"

text \<open>
  A trace is settled when it consists of submissions each followed at once by the
  receipt of its own hash. A trace is blocking when it is settled up to its end, where
  one rejected call, or one submission whose wait rejected, may stand: no call is made
  while an earlier one is unconfirmed, and nothing follows a failure.
\<close>

fun settled :: "event list \<Rightarrow> bool" where
  "settled [] = True"
| "settled (Submitted c h # Confirmed h' # es) = (h = h' \<and> settled es)"
| "settled _ = False"

fun blocking :: "event list \<Rightarrow> bool" where
  "blocking [] = True"
| "blocking (Submitted c h # Confirmed h' # es) = (h = h' \<and> blocking es)"
| "blocking [Submitted c h, WaitFailed h'] = (h = h')"
| "blocking [Rejected c] = True"
| "blocking _ = False"

section \<open>The sequence of the specification\<close>

text \<open>
  The states of the specification's state machine that issue a call, and the sequence
  it prescribes: wrap (if requested), initialize (in \<open>Init\<close> mode only), approve token0,
  approve token1, mint; in wrap-only mode the wrap alone.
\<close>

datatype step = Wrapping | Initializing | Approving string | Minting

fun stepOf :: "call \<Rightarrow> step" where
  "stepOf (deposit a v) = Wrapping"
| "stepOf (createAndInitializePoolIfNecessary a x y f s) = Initializing"
| "stepOf (approve t s v) = Approving t"
| "stepOf (mint a p) = Minting"

definition specSequence :: "request \<Rightarrow> step list" where
  "specSequence rq =
     (if mode rq = Wrap then [Wrapping]
      else (if wrapAmountEth rq \<noteq> ''0'' then [Wrapping] else [])
         @ (if mode rq = Init then [Initializing] else [])
         @ [Approving (fst (orderTokens (tokenAddress rq) WETH_ADDRESS)),
            Approving (snd (orderTokens (tokenAddress rq) WETH_ADDRESS)), Minting])"

section \<open>The run as a list of planned actions\<close>

text \<open>
  Nothing \<open>main\<close> computes depends on what the clients answer, so its actions can be
  listed beforehand: each is a call to submit and await, or an error raised by a check
  or a parse. \<open>runPlan\<close> executes such a list the way \<open>main\<close> executes its statements;
  \<open>planOf\<close> is the list of \<open>main\<close>. That the two agree is proved below
  (\<open>main_runPlan\<close>); the lists serve the proofs only.
\<close>

fun runPlan :: "env \<Rightarrow> (error + call) list \<Rightarrow> unit io" where
  "runPlan e [] tr = (Inr (), tr)"
| "runPlan e (Inl err # p) tr = (Inl err, tr)"
| "runPlan e (Inr c # p) tr =
     (case walletClient e tr c of
        None \<Rightarrow> (Inl SubmissionError, tr @ [Rejected c])
      | Some h \<Rightarrow>
          if publicClient e (tr @ [Submitted c h]) h
          then runPlan e p (tr @ [Submitted c h, Confirmed h])
          else (Inl ConfirmationError, tr @ [Submitted c h, WaitFailed h]))"

definition wrapPlan :: "env \<Rightarrow> string \<Rightarrow> (error + call) list" where
  "wrapPlan e w =
     (case parseEther e w of
        None \<Rightarrow> [Inl InvalidDecimalNumberError]
      | Some v \<Rightarrow> [Inr (deposit WETH_ADDRESS v)])"

definition initPlan :: "env \<Rightarrow> request \<Rightarrow> string \<Rightarrow> string \<Rightarrow> (error + call) list" where
  "initPlan e rq t0 t1 =
     (if \<not> gtZero (parseFloat e (targetTokensPerWethStr rq)) then [Inl InvalidPriceError]
      else
        case encodePriceSqrt (roundDouble e)
               (orientPrice (roundDouble e) t0 (tokenAddress rq)
                  (parseFloat e (targetTokensPerWethStr rq))) of
          Inl err \<Rightarrow> [Inl err]
        | Inr s \<Rightarrow> [Inr (createAndInitializePoolIfNecessary NPM_ADDRESS t0 t1 (feeTier rq) s)])"

definition mintPlan :: "env \<Rightarrow> request \<Rightarrow> string \<Rightarrow> string \<Rightarrow> (error + call) list" where
  "mintPlan e rq t0 t1 =
     (case parseEther e
             (amountStrFor t0 (tokenAddress rq) (amountTokenStr rq) (amountWethStr rq)) of
        None \<Rightarrow> [Inl InvalidDecimalNumberError]
      | Some a0 \<Rightarrow>
         (case parseEther e
                 (amountStrFor t1 (tokenAddress rq) (amountTokenStr rq) (amountWethStr rq)) of
            None \<Rightarrow> [Inl InvalidDecimalNumberError]
          | Some a1 \<Rightarrow> [Inr (mint NPM_ADDRESS
              \<lparr> token0 = t0, token1 = t1, fee = feeTier rq,
                tickLower = TICK_LOWER, tickUpper = TICK_UPPER,
                amount0Desired = a0, amount1Desired = a1,
                amount0Min = 0, amount1Min = 0,
                recipient = account rq,
                deadline = Date_now e div 1000 + 600 \<rparr>)]))"

definition planOf :: "env \<Rightarrow> request \<Rightarrow> (error + call) list" where
  "planOf e rq =
     (if mode rq = Wrap then wrapPlan e (orDefault (wrapAmountAnswer rq) ''0.1'')
      else
        case orderTokens (tokenAddress rq) WETH_ADDRESS of (t0, t1) \<Rightarrow>
          (if wrapAmountEth rq \<noteq> ''0'' then wrapPlan e (wrapAmountEth rq) else [])
          @ (if mode rq = Init then initPlan e rq t0 t1 else [])
          @ [Inr (approve t0 NPM_ADDRESS maxUint256), Inr (approve t1 NPM_ADDRESS maxUint256)]
          @ mintPlan e rq t0 t1)"

text \<open>The calls of a plan up to its first error.\<close>

fun planCalls :: "(error + call) list \<Rightarrow> call list" where
  "planCalls [] = []"
| "planCalls (Inl err # p) = []"
| "planCalls (Inr c # p) = c # planCalls p"

text \<open>
  The ways the run of a plan can end, with the events it adds: all calls confirmed; an
  error of the plan reached; a call rejected; a wait rejected.
\<close>

inductive shape :: "(error + call) list \<Rightarrow> error + unit \<Rightarrow> event list \<Rightarrow> bool" where
  Done: "shape [] (Inr ()) []"
| Invalid: "shape (Inl err # p) (Inl err) []"
| Reject: "shape (Inr c # p) (Inl SubmissionError) [Rejected c]"
| Fail: "shape (Inr c # p) (Inl ConfirmationError) [Submitted c h, WaitFailed h]"
| Step: "shape p r es \<Longrightarrow> shape (Inr c # p) r (Submitted c h # Confirmed h # es)"

section \<open>An example environment\<close>

text \<open>
  A test double for the collaborators, used for the concrete runs below: the values of
  \<open>parseEther\<close> and \<open>parseFloat\<close> on the literals that occur in them
  (\<open>parseEther "0.2"\<close> is 2 * 10^17), arithmetic that is exact on the values that
  occur, a wallet client that accepts every call and a public client that returns every
  receipt. The request is the first example of the README with a target price of 4 and
  a short token address that sorts before the address of the wrapped native token.
\<close>

definition exampleWallet :: "event list \<Rightarrow> call \<Rightarrow> Hex option" where
  "exampleWallet tr c =
     (case c of
        deposit a v \<Rightarrow> Some ''0x01''
      | createAndInitializePoolIfNecessary a x y f s \<Rightarrow> Some ''0x02''
      | approve t s v \<Rightarrow> Some ''0x03''
      | mint a p \<Rightarrow> Some ''0x04'')"

definition exampleEnv :: env where
  "exampleEnv =
     \<lparr> parseEther = map_of
         [(''0'', 0), (''0.0'', 0), (''0.2'', 200000000000000000),
          (''800'', 800000000000000000000)],
       parseFloat = (\<lambda>s. if s = ''1'' then Fin 1 else if s = ''4'' then Fin 4
                         else if s = ''0'' then Fin 0 else NaN),
       roundDouble = Fin,
       Date_now = 1700000000123,
       walletClient = exampleWallet,
       publicClient = (\<lambda>tr h. True) \<rparr>"

definition exampleRequest :: request where
  "exampleRequest =
     \<lparr> mode = Init, account = ''0xA11ce'', feeTier = Fin 3000, tokenAddress = ''0x1c'',
       targetAnswer = ''4'', wrapAnswer = ''y'', wrapAmountAnswer = ''0.2'',
       amountTokenAnswer = ''800'', amountWethAnswer = ''0.2'' \<rparr>"

definition exampleInit :: call where
  "exampleInit =
     createAndInitializePoolIfNecessary NPM_ADDRESS ''0x1c'' WETH_ADDRESS (Fin 3000) (2 ^ 95)"

definition exampleMint :: MintParams where
  "exampleMint =
     \<lparr> token0 = ''0x1c'', token1 = WETH_ADDRESS, fee = Fin 3000,
       tickLower = - 887220, tickUpper = 887220,
       amount0Desired = 800000000000000000000, amount1Desired = 200000000000000000,
       amount0Min = 0, amount1Min = 0, recipient = ''0xA11ce'',
       deadline = 1700000600 \<rparr>"

text \<open>
  Variations of the example: a target price of zero; a wrap amount spelled \<open>0.0\<close>; the
  wrapped native token itself as the token; a token address that sorts after the
  address of the wrapped native token; adding liquidity without a wrap; wrap-only mode;
  and a public client that rejects on the hash of the initialize call.
\<close>

definition zeroPriceRequest :: request where
  "zeroPriceRequest = exampleRequest \<lparr> targetAnswer := ''0'' \<rparr>"

definition zeroWrapRequest :: request where
  "zeroWrapRequest = exampleRequest \<lparr> wrapAmountAnswer := ''0.0'' \<rparr>"

definition sameTokenRequest :: request where
  "sameTokenRequest = exampleRequest \<lparr> tokenAddress := WETH_ADDRESS \<rparr>"

definition highTokenRequest :: request where
  "highTokenRequest = exampleRequest \<lparr> tokenAddress := ''0xfF'' \<rparr>"

definition addRequest :: request where
  "addRequest = exampleRequest \<lparr> mode := Add, wrapAnswer := ''n'' \<rparr>"

definition wrapOnlyRequest :: request where
  "wrapOnlyRequest = exampleRequest \<lparr> mode := Wrap \<rparr>"

definition revertingEnv :: env where
  "revertingEnv = exampleEnv \<lparr> publicClient := (\<lambda>tr h. h \<noteq> ''0x02'') \<rparr>"

definition sameTokenMint :: MintParams where
  "sameTokenMint = exampleMint \<lparr> token0 := WETH_ADDRESS,
     amount1Desired := 800000000000000000000 \<rparr>"

definition highTokenInit :: call where
  "highTokenInit =
     createAndInitializePoolIfNecessary NPM_ADDRESS WETH_ADDRESS ''0xfF'' (Fin 3000) (2 ^ 97)"

definition highTokenMint :: MintParams where
  "highTokenMint = exampleMint \<lparr> token0 := WETH_ADDRESS, token1 := ''0xfF'',
     amount0Desired := 200000000000000000, amount1Desired := 800000000000000000000 \<rparr>"

section \<open>Lower-casing\<close>

text \<open>Setting bit 5 of a capital adds 32 to its code point.\<close>

lemma lowerChar_code_point:
  "of_char (lowerChar c) = (if isUpper c then of_char c + 32 else (of_char c :: nat))"
  by (cases c) (auto simp: isUpper_def)

lemma toLowerCase_WETH:
  "toLowerCase WETH_ADDRESS = ''0x7b79995e5f793a07bc00c21412e50ecae098e7f9''"
  by (simp add: toLowerCase_def WETH_ADDRESS_def isUpper_def)

section \<open>The run of \<open>main\<close> is the run of its plan\<close>

lemma runPlan_append:
  "runPlan e (p @ q) tr = bindE (runPlan e p) (\<lambda>_. runPlan e q) tr"
proof (induction e p tr rule: runPlan.induct)
  case (1 e tr)
  show ?case by (simp add: bindE_def)
next
  case (2 e err p tr)
  show ?case by (simp add: bindE_def)
next
  case (3 e c p tr)
  then show ?case by (simp add: bindE_def split: option.splits)
qed

lemma bindE_runPlan: "bindE (runPlan e p) (\<lambda>_. runPlan e q) = runPlan e (p @ q)"
  by (rule ext) (simp add: runPlan_append)

lemma returnE_runPlan: "returnE () = runPlan e []"
  by (rule ext) (simp add: returnE_def)

lemma sendTx_runPlan:
  "bindE (writeContract e c) (\<lambda>h. waitForTransactionReceipt e h) = runPlan e [Inr c]"
  by (rule ext)
     (simp add: bindE_def writeContract_def waitForTransactionReceipt_def split: option.splits)

lemma wrapStep_runPlan: "wrapStep e w = runPlan e (wrapPlan e w)"
  unfolding wrapStep_def sendTx_runPlan
  by (rule ext) (simp add: wrapPlan_def parseEtherE_def bindE_def throwE_def returnE_def
       split: option.splits)

lemma approveStep_runPlan:
  "approveStep e t = runPlan e [Inr (approve t NPM_ADDRESS maxUint256)]"
  unfolding approveStep_def sendTx_runPlan by (rule refl)

lemma initStep_runPlan: "initStep e rq t0 t1 = runPlan e (initPlan e rq t0 t1)"
  unfolding initStep_def Let_def sendTx_runPlan
  by (rule ext) (simp add: initPlan_def liftE_def bindE_def throwE_def split: sum.splits)

lemma mintStep_runPlan: "mintStep e rq t0 t1 = runPlan e (mintPlan e rq t0 t1)"
  unfolding mintStep_def sendTx_runPlan
  by (rule ext) (simp add: mintPlan_def parseEtherE_def bindE_def throwE_def returnE_def
       split: option.splits)

lemma if_runPlan: "(if b then runPlan e p else runPlan e q) = runPlan e (if b then p else q)"
  by simp

lemma main_runPlan: "main e rq = runPlan e (planOf e rq)"
  unfolding main_def planOf_def wrapStep_runPlan initStep_runPlan approveStep_runPlan
    mintStep_runPlan returnE_runPlan [of e] if_runPlan bindE_runPlan
  by (simp split: prod.splits)

section \<open>How a run ends\<close>

lemma planCalls_append: "planCalls (map Inr cs @ p) = cs @ planCalls p"
  by (induction cs) simp_all

lemma runPlan_shape: "runPlan e p tr = (r, tr') \<Longrightarrow> \<exists>es. tr' = tr @ es \<and> shape p r es"
proof (induction e p tr arbitrary: r tr' rule: runPlan.induct)
  case (1 e tr)
  then show ?case by (auto intro: shape.Done)
next
  case (2 e err p tr)
  then show ?case by (auto intro: shape.Invalid)
next
  case (3 e c p tr)
  show ?case
  proof (cases "walletClient e tr c")
    case None
    with 3(2) show ?thesis by (auto intro: shape.Reject)
  next
    case (Some h)
    show ?thesis
    proof (cases "publicClient e (tr @ [Submitted c h]) h")
      case False
      with Some 3(2) show ?thesis by (auto intro: shape.Fail)
    next
      case True
      with Some 3(2) have "runPlan e p (tr @ [Submitted c h, Confirmed h]) = (r, tr')"
        by simp
      from "3.IH" [OF Some True this] obtain es
        where es: "tr' = (tr @ [Submitted c h, Confirmed h]) @ es" "shape p r es"
        by blast
      from es(2) have "shape (Inr c # p) r (Submitted c h # Confirmed h # es)"
        by (rule shape.Step)
      with es(1) show ?thesis by simp
    qed
  qed
qed

lemma main_shape: "shape (planOf e rq) (fst (main e rq [])) (snd (main e rq []))"
  using runPlan_shape [of e "planOf e rq" "[]" "fst (main e rq [])" "snd (main e rq [])"]
  by (simp add: main_runPlan)

lemma shape_blocking: "shape p r es \<Longrightarrow> blocking es"
  by (induction rule: shape.induct) simp_all

lemma shape_prefix: "shape p r es \<Longrightarrow> prefix (callsOf es) (planCalls p)"
  by (induction rule: shape.induct) simp_all

lemma shape_Done: "shape p (Inr u) es \<Longrightarrow> settled es \<and> p = map Inr (callsOf es)"
  by (induction p "Inr u :: error + unit" es rule: shape.induct) simp_all

lemma shape_Invalid:
  "shape p (Inl err) es \<Longrightarrow> err \<noteq> SubmissionError \<Longrightarrow> err \<noteq> ConfirmationError \<Longrightarrow>
     settled es \<and> (\<exists>q. p = map Inr (callsOf es) @ Inl err # q)"
  by (induction p "Inl err :: error + unit" es rule: shape.induct) auto

lemma shape_first: "shape (Inr c # p) r es \<Longrightarrow> callsOf es \<noteq> [] \<and> hd (callsOf es) = c"
  by (erule shape.cases) simp_all

lemma main_calls_planned:
  "c \<in> set (callsOf (snd (main e rq []))) \<Longrightarrow> c \<in> set (planCalls (planOf e rq))"
  using shape_prefix [OF main_shape, of e rq] set_mono_prefix by blast

section \<open>What the plan of \<open>main\<close> contains\<close>

lemmas plan_defs = planOf_def wrapPlan_def initPlan_def mintPlan_def

lemma encodePriceSqrt_error: "encodePriceSqrt rd p = Inl err \<Longrightarrow> err = RangeError"
proof -
  have "BigInt x = Inl err \<Longrightarrow> err = RangeError" for x
    by (cases x) (auto split: if_splits)
  then show "encodePriceSqrt rd p = Inl err \<Longrightarrow> err = RangeError"
    by (simp add: encodePriceSqrt_def Let_def)
qed

lemma plan_prefix_spec: "prefix (map stepOf (planCalls (planOf e rq))) (specSequence rq)"
  by (auto simp: plan_defs specSequence_def split: prod.splits option.splits sum.splits)

lemma plan_complete:
  "planOf e rq = map Inr cs \<Longrightarrow> map stepOf cs = specSequence rq"
  by (auto simp: plan_defs specSequence_def Cons_eq_map_conv
      split: prod.splits option.splits sum.splits if_splits)

lemma plan_deposit:
  "deposit a v \<in> set (planCalls (planOf e rq)) \<Longrightarrow>
     a = WETH_ADDRESS \<and>
     (if mode rq = Wrap then parseEther e (orDefault (wrapAmountAnswer rq) ''0.1'') = Some v
      else wrapAmountEth rq \<noteq> ''0'' \<and> parseEther e (wrapAmountEth rq) = Some v)"
  by (auto simp: plan_defs split: prod.splits option.splits sum.splits if_splits)

lemma plan_init:
  "createAndInitializePoolIfNecessary a x y f s \<in> set (planCalls (planOf e rq)) \<Longrightarrow>
     mode rq = Init \<and> a = NPM_ADDRESS \<and> (x, y) = orderTokens (tokenAddress rq) WETH_ADDRESS \<and>
     f = feeTier rq \<and> gtZero (parseFloat e (targetTokensPerWethStr rq)) \<and>
     encodePriceSqrt (roundDouble e)
       (orientPrice (roundDouble e) x (tokenAddress rq) (parseFloat e (targetTokensPerWethStr rq)))
       = Inr s"
  by (auto simp: plan_defs split: prod.splits option.splits sum.splits if_splits)

lemma plan_mint:
  "mint a p \<in> set (planCalls (planOf e rq)) \<Longrightarrow>
     a = NPM_ADDRESS \<and>
     (token0 p, token1 p) = orderTokens (tokenAddress rq) WETH_ADDRESS \<and>
     fee p = feeTier rq \<and> tickLower p = TICK_LOWER \<and> tickUpper p = TICK_UPPER \<and>
     parseEther e (amountStrFor (token0 p) (tokenAddress rq) (amountTokenStr rq) (amountWethStr rq))
       = Some (amount0Desired p) \<and>
     parseEther e (amountStrFor (token1 p) (tokenAddress rq) (amountTokenStr rq) (amountWethStr rq))
       = Some (amount1Desired p) \<and>
     amount0Min p = 0 \<and> amount1Min p = 0 \<and> recipient p = account rq \<and>
     deadline p = Date_now e div 1000 + 600"
  by (auto simp: plan_defs split: prod.splits option.splits sum.splits if_splits)

lemma plan_invalid_price:
  "Inl InvalidPriceError \<in> set (planOf e rq) \<Longrightarrow>
     mode rq = Init \<and> \<not> gtZero (parseFloat e (targetTokensPerWethStr rq))"
  by (auto simp: plan_defs dest: encodePriceSqrt_error
      split: prod.splits option.splits sum.splits if_splits)

lemma order_cases:
  "toLowerCase t < toLowerCase w \<Longrightarrow> orderTokens t w = (t, w)"
  "toLowerCase w < toLowerCase t \<Longrightarrow> orderTokens t w = (w, t)"
  by (auto simp: orderTokens_def Let_def)

section \<open>The example run\<close>

lemma example_sorts_first: "toLowerCase ''0x1c'' < toLowerCase WETH_ADDRESS"
  by (simp add: toLowerCase_WETH) (simp add: toLowerCase_def isUpper_def)

lemma example_order: "orderTokens ''0x1c'' WETH_ADDRESS = (''0x1c'', WETH_ADDRESS)"
  by (simp add: order_cases example_sorts_first)

lemma example_price: "encodePriceSqrt Fin (Fin (1 / 4)) = Inr (2 ^ 95)"
  by (simp add: encodePriceSqrt_def numTimes_def Number_Q96_def Q96_def real_sqrt_divide)

lemmas example_defs = exampleEnv_def exampleRequest_def wrapAmountEth_def orDefault_def
  targetTokensPerWethStr_def amountTokenStr_def amountWethStr_def

lemma example_plan:
  "planOf exampleEnv exampleRequest =
    [Inr (deposit WETH_ADDRESS 200000000000000000),
     Inr exampleInit,
     Inr (approve ''0x1c'' NPM_ADDRESS maxUint256),
     Inr (approve WETH_ADDRESS NPM_ADDRESS maxUint256),
     Inr (mint NPM_ADDRESS exampleMint)]"
  apply (simp add: plan_defs example_order example_defs TICK_LOWER_def TICK_UPPER_def
      exampleInit_def exampleMint_def)
  apply (simp add: orientPrice_def amountStrFor_def numDivide_def example_price toLowerCase_WETH)
  apply (simp add: toLowerCase_def isUpper_def)
  done

lemma example_run:
  "main exampleEnv exampleRequest [] =
    (Inr (),
     [Submitted (deposit WETH_ADDRESS 200000000000000000) ''0x01'', Confirmed ''0x01'',
      Submitted exampleInit ''0x02'', Confirmed ''0x02'',
      Submitted (approve ''0x1c'' NPM_ADDRESS maxUint256) ''0x03'', Confirmed ''0x03'',
      Submitted (approve WETH_ADDRESS NPM_ADDRESS maxUint256) ''0x03'', Confirmed ''0x03'',
      Submitted (mint NPM_ADDRESS exampleMint) ''0x04'', Confirmed ''0x04''])"
  unfolding main_runPlan example_plan
  by (simp add: exampleEnv_def exampleWallet_def exampleInit_def)

lemma example_mint_issued:
  "mint NPM_ADDRESS exampleMint \<in> set (callsOf (snd (main exampleEnv exampleRequest [])))"
  by (simp add: example_run)

lemma example_init_issued:
  "exampleInit \<in> set (callsOf (snd (main exampleEnv exampleRequest [])))"
  by (simp add: example_run)

section \<open>Runs that fail\<close>

lemma settled_no_calls: "settled es \<Longrightarrow> callsOf es = [] \<Longrightarrow> es = []"
  by (induction es rule: settled.induct) auto

lemma settled_one_call:
  "settled es \<Longrightarrow> callsOf es = [c] \<Longrightarrow> \<exists>h. es = [Submitted c h, Confirmed h]"
  by (induction es rule: settled.induct) (auto dest: settled_no_calls)

lemma Inl_head: "Inl x # r = map Inr cs @ Inl y # q \<Longrightarrow> cs = [] \<and> x = y"
  by (cases cs) auto

lemma plan_until_invalid_price:
  assumes "planOf e rq = map Inr cs @ Inl InvalidPriceError # q"
  shows "mode rq = Init \<and> \<not> gtZero (parseFloat e (targetTokensPerWethStr rq)) \<and>
         (if wrapAmountEth rq = ''0'' then cs = []
          else \<exists>v. parseEther e (wrapAmountEth rq) = Some v \<and> cs = [deposit WETH_ADDRESS v])"
proof -
  from assms have "Inl InvalidPriceError \<in> set (planOf e rq)" by simp
  from plan_invalid_price [OF this]
  have mi: "mode rq = Init" "\<not> gtZero (parseFloat e (targetTokensPerWethStr rq))" by simp_all
  from assms have cs: "cs = planCalls (planOf e rq)"
    by (simp add: planCalls_append)
  show ?thesis
  proof (cases "wrapAmountEth rq = ''0''")
    case True
    with mi cs show ?thesis by (simp add: plan_defs split: prod.splits)
  next
    case False
    show ?thesis
    proof (cases "parseEther e (wrapAmountEth rq)")
      case None
      with False mi have "\<exists>r. planOf e rq = Inl InvalidDecimalNumberError # r"
        by (simp add: plan_defs split: prod.splits)
      with assms obtain r where "Inl InvalidDecimalNumberError # r = map Inr cs @ Inl InvalidPriceError # q"
        by auto
      from Inl_head [OF this] show ?thesis by simp
    next
      case (Some v)
      with False mi cs show ?thesis by (simp add: plan_defs split: prod.splits)
    qed
  qed
qed

lemma shape_wait_failed:
  "shape p r es \<Longrightarrow> es = pre @ Submitted c h # WaitFailed h' # post \<Longrightarrow>
     post = [] \<and> h' = h \<and> r = Inl ConfirmationError \<and> settled pre \<and>
     (\<exists>q. p = map Inr (callsOf pre) @ Inr c # q)"
proof (induction arbitrary: pre rule: shape.induct)
  case Done
  then show ?case by simp
next
  case (Invalid err p)
  then show ?case by simp
next
  case (Reject c0 p)
  then show ?case by (cases pre) auto
next
  case (Fail c0 p h0)
  then show ?case by (cases pre; cases "tl pre") auto
next
  case (Step p r es c0 h0)
  show ?case
  proof (cases pre)
    case Nil
    with Step.prems show ?thesis by simp
  next
    case (Cons x pre1)
    show ?thesis
    proof (cases pre1)
      case Nil
      with Cons Step.prems show ?thesis by simp
    next
      case (Cons y pre2)
      with \<open>pre = x # pre1\<close> Step.prems
      have xy: "x = Submitted c0 h0" "y = Confirmed h0"
        and es: "es = pre2 @ Submitted c h # WaitFailed h' # post"
        by simp_all
      from Step.IH [OF es] xy Cons \<open>pre = x # pre1\<close> show ?thesis by auto
    qed
  qed
qed

lemma prefix_snoc_Cons:
  "prefix (ks @ [k]) (a # l) = ((ks = [] \<and> k = a) \<or> (\<exists>ks'. ks = a # ks' \<and> prefix (ks' @ [k]) l))"
  by (cases ks) auto

lemma spec_before_init:
  "prefix (ks @ [Initializing]) (specSequence rq) \<Longrightarrow> ks = [] \<or> ks = [Wrapping]"
  by (auto simp: specSequence_def prefix_snoc_Cons split: if_splits)

lemma plan_starts_with_wrap:
  "mode rq \<noteq> Wrap \<Longrightarrow> wrapAmountEth rq \<noteq> ''0'' \<Longrightarrow> parseEther e (wrapAmountEth rq) = Some v \<Longrightarrow>
     \<exists>p. planOf e rq = Inr (deposit WETH_ADDRESS v) # p"
  by (simp add: plan_defs split: prod.splits)

lemma plan_wrap_only:
  "mode rq = Wrap \<Longrightarrow> parseEther e (orDefault (wrapAmountAnswer rq) ''0.1'') = Some v \<Longrightarrow>
     planOf e rq = [Inr (deposit WETH_ADDRESS v)]"
  by (simp add: plan_defs)

lemma first_call_issued:
  assumes "planOf e rq = Inr c # p"
  shows "c \<in> set (callsOf (snd (main e rq [])))"
proof -
  from main_shape [of e rq] assms
  have "shape (Inr c # p) (fst (main e rq [])) (snd (main e rq []))" by simp
  from shape_first [OF this] show ?thesis
    using hd_in_set by metis
qed

lemma encodePriceSqrt_negative:
  "isNeg p \<Longrightarrow> \<not> isZero p \<Longrightarrow> encodePriceSqrt rd p = Inl RangeError"
  by (cases p) (simp_all add: encodePriceSqrt_def numTimes_def Number_Q96_def)

lemma encodePriceSqrt_zero: "isZero p \<Longrightarrow> encodePriceSqrt rd p = Inr 0"
  by (cases p)
     (simp_all add: encodePriceSqrt_def numTimes_def Number_Q96_def Q96_def signedZero_def)

section \<open>The variations of the example\<close>

lemma zero_price_run:
  "main exampleEnv zeroPriceRequest [] =
    (Inl InvalidPriceError,
     [Submitted (deposit WETH_ADDRESS 200000000000000000) ''0x01'', Confirmed ''0x01''])"
proof -
  have "planOf exampleEnv zeroPriceRequest =
      Inr (deposit WETH_ADDRESS 200000000000000000) # Inl InvalidPriceError #
      [Inr (approve ''0x1c'' NPM_ADDRESS maxUint256),
       Inr (approve WETH_ADDRESS NPM_ADDRESS maxUint256)]
      @ mintPlan exampleEnv zeroPriceRequest ''0x1c'' WETH_ADDRESS"
    by (simp add: planOf_def wrapPlan_def initPlan_def zeroPriceRequest_def example_order example_defs)
  then show ?thesis
    unfolding main_runPlan by (simp add: exampleEnv_def exampleWallet_def)
qed

lemma zero_wrap_deposit:
  "deposit WETH_ADDRESS 0 \<in> set (callsOf (snd (main exampleEnv zeroWrapRequest [])))"
proof -
  have "wrapAmountEth zeroWrapRequest = ''0.0''"
    by (simp add: zeroWrapRequest_def example_defs)
  moreover have "parseEther exampleEnv ''0.0'' = Some 0"
    by (simp add: exampleEnv_def)
  moreover have "mode zeroWrapRequest \<noteq> Wrap"
    by (simp add: zeroWrapRequest_def example_defs)
  ultimately obtain p where "planOf exampleEnv zeroWrapRequest = Inr (deposit WETH_ADDRESS 0) # p"
    using plan_starts_with_wrap [of zeroWrapRequest exampleEnv 0] by auto
  from first_call_issued [OF this] show ?thesis .
qed

lemma same_token_order: "orderTokens WETH_ADDRESS WETH_ADDRESS = (WETH_ADDRESS, WETH_ADDRESS)"
  by (simp add: orderTokens_def)

lemma same_token_run:
  "main exampleEnv sameTokenRequest [] =
    (Inr (),
     [Submitted (deposit WETH_ADDRESS 200000000000000000) ''0x01'', Confirmed ''0x01'',
      Submitted (createAndInitializePoolIfNecessary NPM_ADDRESS WETH_ADDRESS WETH_ADDRESS
        (Fin 3000) (2 ^ 95)) ''0x02'', Confirmed ''0x02'',
      Submitted (approve WETH_ADDRESS NPM_ADDRESS maxUint256) ''0x03'', Confirmed ''0x03'',
      Submitted (approve WETH_ADDRESS NPM_ADDRESS maxUint256) ''0x03'', Confirmed ''0x03'',
      Submitted (mint NPM_ADDRESS sameTokenMint) ''0x04'', Confirmed ''0x04''])"
proof -
  have "planOf exampleEnv sameTokenRequest =
    [Inr (deposit WETH_ADDRESS 200000000000000000),
     Inr (createAndInitializePoolIfNecessary NPM_ADDRESS WETH_ADDRESS WETH_ADDRESS
        (Fin 3000) (2 ^ 95)),
     Inr (approve WETH_ADDRESS NPM_ADDRESS maxUint256),
     Inr (approve WETH_ADDRESS NPM_ADDRESS maxUint256),
     Inr (mint NPM_ADDRESS sameTokenMint)]"
    apply (simp add: plan_defs sameTokenRequest_def same_token_order example_defs TICK_LOWER_def
        TICK_UPPER_def sameTokenMint_def exampleMint_def)
    apply (simp add: orientPrice_def amountStrFor_def numDivide_def example_price)
    done
  then show ?thesis
    unfolding main_runPlan by (simp add: exampleEnv_def exampleWallet_def)
qed

lemma high_sorts_last: "toLowerCase WETH_ADDRESS < toLowerCase ''0xfF''"
  by (simp add: toLowerCase_WETH) (simp add: toLowerCase_def isUpper_def)

lemma high_token_order: "orderTokens ''0xfF'' WETH_ADDRESS = (WETH_ADDRESS, ''0xfF'')"
  by (simp add: order_cases high_sorts_last)

lemma high_price: "encodePriceSqrt Fin (Fin 4) = Inr (2 ^ 97)"
proof -
  have "sqrt 4 = 2" using real_sqrt_abs [of 2] by simp
  then show ?thesis
    by (simp add: encodePriceSqrt_def numTimes_def Number_Q96_def Q96_def)
qed

lemma high_token_run:
  "main exampleEnv highTokenRequest [] =
    (Inr (),
     [Submitted (deposit WETH_ADDRESS 200000000000000000) ''0x01'', Confirmed ''0x01'',
      Submitted highTokenInit ''0x02'', Confirmed ''0x02'',
      Submitted (approve WETH_ADDRESS NPM_ADDRESS maxUint256) ''0x03'', Confirmed ''0x03'',
      Submitted (approve ''0xfF'' NPM_ADDRESS maxUint256) ''0x03'', Confirmed ''0x03'',
      Submitted (mint NPM_ADDRESS highTokenMint) ''0x04'', Confirmed ''0x04''])"
proof -
  have ne: "toLowerCase WETH_ADDRESS \<noteq> toLowerCase ''0xfF''"
    using high_sorts_last by auto
  have "planOf exampleEnv highTokenRequest =
    [Inr (deposit WETH_ADDRESS 200000000000000000),
     Inr highTokenInit,
     Inr (approve WETH_ADDRESS NPM_ADDRESS maxUint256),
     Inr (approve ''0xfF'' NPM_ADDRESS maxUint256),
     Inr (mint NPM_ADDRESS highTokenMint)]"
    apply (simp add: plan_defs highTokenRequest_def high_token_order example_defs TICK_LOWER_def
        TICK_UPPER_def highTokenMint_def highTokenInit_def exampleMint_def)
    apply (simp add: orientPrice_def amountStrFor_def ne high_price)
    done
  then show ?thesis
    unfolding main_runPlan by (simp add: exampleEnv_def exampleWallet_def highTokenInit_def)
qed

lemma high_mint_issued:
  "mint NPM_ADDRESS highTokenMint \<in> set (callsOf (snd (main exampleEnv highTokenRequest [])))"
  by (simp add: high_token_run)

lemma add_run:
  "main exampleEnv addRequest [] =
    (Inr (),
     [Submitted (approve ''0x1c'' NPM_ADDRESS maxUint256) ''0x03'', Confirmed ''0x03'',
      Submitted (approve WETH_ADDRESS NPM_ADDRESS maxUint256) ''0x03'', Confirmed ''0x03'',
      Submitted (mint NPM_ADDRESS exampleMint) ''0x04'', Confirmed ''0x04''])"
proof -
  have "planOf exampleEnv addRequest =
    [Inr (approve ''0x1c'' NPM_ADDRESS maxUint256),
     Inr (approve WETH_ADDRESS NPM_ADDRESS maxUint256),
     Inr (mint NPM_ADDRESS exampleMint)]"
    apply (simp add: plan_defs addRequest_def example_order example_defs TICK_LOWER_def
        TICK_UPPER_def exampleMint_def)
    apply (simp add: amountStrFor_def toLowerCase_WETH)
    apply (simp add: toLowerCase_def isUpper_def)
    done
  then show ?thesis
    unfolding main_runPlan by (simp add: exampleEnv_def exampleWallet_def)
qed

lemma wrap_only_run:
  "main exampleEnv wrapOnlyRequest [] =
    (Inr (), [Submitted (deposit WETH_ADDRESS 200000000000000000) ''0x01'', Confirmed ''0x01''])"
proof -
  have "planOf exampleEnv wrapOnlyRequest = [Inr (deposit WETH_ADDRESS 200000000000000000)]"
    by (simp add: plan_defs wrapOnlyRequest_def example_defs)
  then show ?thesis
    unfolding main_runPlan by (simp add: exampleEnv_def exampleWallet_def)
qed

lemma plan_ignores_publicClient: "planOf (e \<lparr> publicClient := f \<rparr>) rq = planOf e rq"
proof -
  have w: "wrapPlan (e \<lparr> publicClient := f \<rparr>) s = wrapPlan e s" for s
    by (simp add: wrapPlan_def)
  have i: "initPlan (e \<lparr> publicClient := f \<rparr>) rq t0 t1 = initPlan e rq t0 t1" for t0 t1
    by (simp add: initPlan_def)
  have m: "mintPlan (e \<lparr> publicClient := f \<rparr>) rq t0 t1 = mintPlan e rq t0 t1" for t0 t1
    by (simp add: mintPlan_def split: option.splits)
  show ?thesis by (simp add: planOf_def w i m split: prod.splits)
qed

lemma reverting_run:
  "main revertingEnv exampleRequest [] =
    (Inl ConfirmationError,
     [Submitted (deposit WETH_ADDRESS 200000000000000000) ''0x01'', Confirmed ''0x01'',
      Submitted exampleInit ''0x02'', WaitFailed ''0x02''])"
proof -
  have "planOf revertingEnv exampleRequest = planOf exampleEnv exampleRequest"
    unfolding revertingEnv_def by (rule plan_ignores_publicClient)
  then show ?thesis
    unfolding main_runPlan example_plan
    by (simp add: revertingEnv_def exampleEnv_def exampleWallet_def exampleInit_def)
qed

section \<open>The token pair orderer\<close>

text \<open>
  Claim C5. For all token identifiers \<open>a\<close> and \<open>b\<close> that are distinct as identifiers,
  that is, whose lower-cased forms differ (the orderer's input constraint), ordering
  \<open>(a, b)\<close> and ordering \<open>(b, a)\<close> give the same pair, and in that pair the lower-cased
  form of token0 sorts strictly before the lower-cased form of token1.
\<close>

theorem orderTokens_order_independent:
  assumes "toLowerCase a \<noteq> toLowerCase b"
  shows "orderTokens a b = orderTokens b a \<and>
         toLowerCase (fst (orderTokens a b)) < toLowerCase (snd (orderTokens a b))"
  using assms by (auto simp: orderTokens_def Let_def)

theorem orderTokens_order_independent_witness:
  "toLowerCase ''0xAb'' \<noteq> toLowerCase ''0xCD'' \<and>
   orderTokens ''0xAb'' ''0xCD'' = orderTokens ''0xCD'' ''0xAb'' \<and>
   toLowerCase (fst (orderTokens ''0xAb'' ''0xCD''))
     < toLowerCase (snd (orderTokens ''0xAb'' ''0xCD''))"
proof -
  have h: "toLowerCase ''0xAb'' \<noteq> toLowerCase ''0xCD''"
    by (simp add: toLowerCase_def isUpper_def)
  show ?thesis using h orderTokens_order_independent [OF h] by blast
qed

section \<open>The mint call\<close>

text \<open>
  Claim C8. Every mint call a run issues goes to the position manager with the tick
  bounds -887220 and 887220, both minimum amounts zero, the caller's account as
  recipient, and as deadline the current time in whole seconds plus 600.
\<close>

theorem mint_parameters:
  assumes "mint a p \<in> set (callsOf (snd (main e rq [])))"
  shows "a = NPM_ADDRESS \<and> tickLower p = - 887220 \<and> tickUpper p = 887220 \<and>
         amount0Min p = 0 \<and> amount1Min p = 0 \<and> recipient p = account rq \<and>
         deadline p = Date_now e div 1000 + 600"
  using plan_mint [OF main_calls_planned [OF assms]]
  by (simp add: TICK_LOWER_def TICK_UPPER_def)

theorem mint_parameters_witness:
  "mint NPM_ADDRESS exampleMint \<in> set (callsOf (snd (main exampleEnv exampleRequest []))) \<and>
   tickLower exampleMint = - 887220 \<and> tickUpper exampleMint = 887220 \<and>
   amount0Min exampleMint = 0 \<and> amount1Min exampleMint = 0 \<and>
   recipient exampleMint = account exampleRequest \<and>
   deadline exampleMint = Date_now exampleEnv div 1000 + 600"
  using example_mint_issued mint_parameters [OF example_mint_issued] by blast

text \<open>
  Claim C2. In the mint call a run issues, the amounts follow the order of the pair:
  when the custom token is token0, amount0 is the parsed token quantity and amount1
  the parsed WETH quantity; when it is token1, amount0 is the parsed WETH quantity and
  amount1 the parsed token quantity. The value of a quantity \<open>X\<close> in base units
  (\<open>X\<close> times 10^18) is what \<open>parseEther\<close> returns for it, whichever slot it goes to.
\<close>

theorem amounts_follow_token_order:
  assumes "mint a p \<in> set (callsOf (snd (main e rq [])))"
  shows "(toLowerCase (tokenAddress rq) < toLowerCase WETH_ADDRESS \<longrightarrow>
            token0 p = tokenAddress rq \<and> token1 p = WETH_ADDRESS \<and>
            parseEther e (amountTokenStr rq) = Some (amount0Desired p) \<and>
            parseEther e (amountWethStr rq) = Some (amount1Desired p)) \<and>
         (toLowerCase WETH_ADDRESS < toLowerCase (tokenAddress rq) \<longrightarrow>
            token0 p = WETH_ADDRESS \<and> token1 p = tokenAddress rq \<and>
            parseEther e (amountWethStr rq) = Some (amount0Desired p) \<and>
            parseEther e (amountTokenStr rq) = Some (amount1Desired p))"
proof -
  note m = plan_mint [OF main_calls_planned [OF assms]]
  show ?thesis
  proof (intro conjI impI)
    assume lt: "toLowerCase (tokenAddress rq) < toLowerCase WETH_ADDRESS"
    with m have t: "token0 p = tokenAddress rq" "token1 p = WETH_ADDRESS"
      by (simp_all add: order_cases)
    from lt have ne: "toLowerCase WETH_ADDRESS \<noteq> toLowerCase (tokenAddress rq)" by auto
    show "token0 p = tokenAddress rq" "token1 p = WETH_ADDRESS" by (rule t)+
    from m t show "parseEther e (amountTokenStr rq) = Some (amount0Desired p)"
      by (simp add: amountStrFor_def)
    from m t ne show "parseEther e (amountWethStr rq) = Some (amount1Desired p)"
      by (simp add: amountStrFor_def)
  next
    assume lt: "toLowerCase WETH_ADDRESS < toLowerCase (tokenAddress rq)"
    with m have t: "token0 p = WETH_ADDRESS" "token1 p = tokenAddress rq"
      by (simp_all add: order_cases)
    from lt have ne: "toLowerCase WETH_ADDRESS \<noteq> toLowerCase (tokenAddress rq)" by auto
    show "token0 p = WETH_ADDRESS" "token1 p = tokenAddress rq" by (rule t)+
    from m t ne show "parseEther e (amountWethStr rq) = Some (amount0Desired p)"
      by (simp add: amountStrFor_def)
    from m t show "parseEther e (amountTokenStr rq) = Some (amount1Desired p)"
      by (simp add: amountStrFor_def)
  qed
qed

theorem amounts_follow_token_order_witness:
  "mint NPM_ADDRESS exampleMint \<in> set (callsOf (snd (main exampleEnv exampleRequest []))) \<and>
   toLowerCase (tokenAddress exampleRequest) < toLowerCase WETH_ADDRESS \<and>
   token0 exampleMint = tokenAddress exampleRequest \<and> token1 exampleMint = WETH_ADDRESS \<and>
   parseEther exampleEnv (amountTokenStr exampleRequest) = Some (amount0Desired exampleMint) \<and>
   parseEther exampleEnv (amountWethStr exampleRequest) = Some (amount1Desired exampleMint) \<and>
   mint NPM_ADDRESS highTokenMint \<in> set (callsOf (snd (main exampleEnv highTokenRequest []))) \<and>
   toLowerCase WETH_ADDRESS < toLowerCase (tokenAddress highTokenRequest) \<and>
   token0 highTokenMint = WETH_ADDRESS \<and> token1 highTokenMint = tokenAddress highTokenRequest \<and>
   parseEther exampleEnv (amountWethStr highTokenRequest) = Some (amount0Desired highTokenMint) \<and>
   parseEther exampleEnv (amountTokenStr highTokenRequest) = Some (amount1Desired highTokenMint)"
proof -
  have lo: "toLowerCase (tokenAddress exampleRequest) < toLowerCase WETH_ADDRESS"
    by (simp add: exampleRequest_def example_sorts_first)
  have hi: "toLowerCase WETH_ADDRESS < toLowerCase (tokenAddress highTokenRequest)"
    by (simp add: highTokenRequest_def exampleRequest_def high_sorts_last)
  from lo hi example_mint_issued high_mint_issued
    amounts_follow_token_order [OF example_mint_issued]
    amounts_follow_token_order [OF high_mint_issued]
  show ?thesis by blast
qed

section \<open>The price handed to the encoder\<close>

text \<open>
  Claim C10. The initialize call of a run carries the encoding of a price oriented as
  token1 per token0: when the custom token sorts as token0 the encoder is given the
  reciprocal of the entered target (tokens per WETH), when WETH sorts as token0 it is
  given the target unchanged.
\<close>

theorem price_oriented_token1_per_token0:
  assumes "createAndInitializePoolIfNecessary a x y f s \<in> set (callsOf (snd (main e rq [])))"
  shows "(toLowerCase (tokenAddress rq) < toLowerCase WETH_ADDRESS \<longrightarrow>
            x = tokenAddress rq \<and> y = WETH_ADDRESS \<and>
            orientPrice (roundDouble e) x (tokenAddress rq) (parseFloat e (targetTokensPerWethStr rq))
              = numDivide (roundDouble e) (Fin 1) (parseFloat e (targetTokensPerWethStr rq)) \<and>
            encodePriceSqrt (roundDouble e)
              (numDivide (roundDouble e) (Fin 1) (parseFloat e (targetTokensPerWethStr rq))) = Inr s) \<and>
         (toLowerCase WETH_ADDRESS < toLowerCase (tokenAddress rq) \<longrightarrow>
            x = WETH_ADDRESS \<and> y = tokenAddress rq \<and>
            orientPrice (roundDouble e) x (tokenAddress rq) (parseFloat e (targetTokensPerWethStr rq))
              = parseFloat e (targetTokensPerWethStr rq) \<and>
            encodePriceSqrt (roundDouble e) (parseFloat e (targetTokensPerWethStr rq)) = Inr s)"
proof -
  note m = plan_init [OF main_calls_planned [OF assms]]
  show ?thesis
  proof (intro conjI impI)
    assume lt: "toLowerCase (tokenAddress rq) < toLowerCase WETH_ADDRESS"
    with m have t: "x = tokenAddress rq" "y = WETH_ADDRESS"
      by (simp_all add: order_cases)
    show "x = tokenAddress rq" "y = WETH_ADDRESS" by (rule t)+
    from t show o: "orientPrice (roundDouble e) x (tokenAddress rq)
        (parseFloat e (targetTokensPerWethStr rq))
          = numDivide (roundDouble e) (Fin 1) (parseFloat e (targetTokensPerWethStr rq))"
      by (simp add: orientPrice_def)
    from m o show "encodePriceSqrt (roundDouble e)
        (numDivide (roundDouble e) (Fin 1) (parseFloat e (targetTokensPerWethStr rq))) = Inr s"
      by simp
  next
    assume lt: "toLowerCase WETH_ADDRESS < toLowerCase (tokenAddress rq)"
    with m have t: "x = WETH_ADDRESS" "y = tokenAddress rq"
      by (simp_all add: order_cases)
    from lt have ne: "toLowerCase WETH_ADDRESS \<noteq> toLowerCase (tokenAddress rq)" by auto
    show "x = WETH_ADDRESS" "y = tokenAddress rq" by (rule t)+
    from t ne show o: "orientPrice (roundDouble e) x (tokenAddress rq)
        (parseFloat e (targetTokensPerWethStr rq)) = parseFloat e (targetTokensPerWethStr rq)"
      by (simp add: orientPrice_def)
    from m o show "encodePriceSqrt (roundDouble e) (parseFloat e (targetTokensPerWethStr rq)) = Inr s"
      by simp
  qed
qed

theorem price_oriented_token1_per_token0_witness:
  "createAndInitializePoolIfNecessary NPM_ADDRESS ''0x1c'' WETH_ADDRESS (Fin 3000) (2 ^ 95)
     \<in> set (callsOf (snd (main exampleEnv exampleRequest []))) \<and>
   toLowerCase (tokenAddress exampleRequest) < toLowerCase WETH_ADDRESS \<and>
   encodePriceSqrt (roundDouble exampleEnv)
     (numDivide (roundDouble exampleEnv) (Fin 1)
        (parseFloat exampleEnv (targetTokensPerWethStr exampleRequest))) = Inr (2 ^ 95) \<and>
   createAndInitializePoolIfNecessary NPM_ADDRESS WETH_ADDRESS ''0xfF'' (Fin 3000) (2 ^ 97)
     \<in> set (callsOf (snd (main exampleEnv highTokenRequest []))) \<and>
   toLowerCase WETH_ADDRESS < toLowerCase (tokenAddress highTokenRequest) \<and>
   encodePriceSqrt (roundDouble exampleEnv)
     (parseFloat exampleEnv (targetTokensPerWethStr highTokenRequest)) = Inr (2 ^ 97)"
proof -
  have lo: "toLowerCase (tokenAddress exampleRequest) < toLowerCase WETH_ADDRESS"
    by (simp add: exampleRequest_def example_sorts_first)
  have hi: "toLowerCase WETH_ADDRESS < toLowerCase (tokenAddress highTokenRequest)"
    by (simp add: highTokenRequest_def exampleRequest_def high_sorts_last)
  have i1: "createAndInitializePoolIfNecessary NPM_ADDRESS ''0x1c'' WETH_ADDRESS (Fin 3000) (2 ^ 95)
     \<in> set (callsOf (snd (main exampleEnv exampleRequest [])))"
    using example_init_issued by (simp add: exampleInit_def)
  have i2: "createAndInitializePoolIfNecessary NPM_ADDRESS WETH_ADDRESS ''0xfF'' (Fin 3000) (2 ^ 97)
     \<in> set (callsOf (snd (main exampleEnv highTokenRequest [])))"
    by (simp add: high_token_run highTokenInit_def)
  from lo hi i1 i2 price_oriented_token1_per_token0 [OF i1] price_oriented_token1_per_token0 [OF i2]
  show ?thesis by blast
qed

section \<open>The order of the calls\<close>

text \<open>
  Claim C3. Every run is blocking: a call is submitted only when every earlier call
  has been confirmed. The calls of every run are an initial part of the prescribed
  sequence wrap (if requested), initialize (in \<open>Init\<close> mode only, with token0, token1,
  the fee tier and the encoded price), approve token0, approve token1, mint; a run
  that ends without error has issued exactly that sequence, every call confirmed. In
  \<open>Add\<close> mode the sequence has no initialize step.
\<close>

theorem orchestration_sequence:
  "blocking (snd (main e rq [])) \<and>
   prefix (map stepOf (callsOf (snd (main e rq [])))) (specSequence rq) \<and>
   (fst (main e rq []) = Inr () \<longrightarrow>
      settled (snd (main e rq [])) \<and>
      map stepOf (callsOf (snd (main e rq []))) = specSequence rq) \<and>
   (\<forall>a x y f s.
      createAndInitializePoolIfNecessary a x y f s \<in> set (callsOf (snd (main e rq []))) \<longrightarrow>
        mode rq = Init \<and> a = NPM_ADDRESS \<and> (x, y) = orderTokens (tokenAddress rq) WETH_ADDRESS \<and>
        f = feeTier rq \<and>
        encodePriceSqrt (roundDouble e)
          (orientPrice (roundDouble e) x (tokenAddress rq)
             (parseFloat e (targetTokensPerWethStr rq))) = Inr s)"
proof (intro conjI impI allI)
  show "blocking (snd (main e rq []))"
    by (rule shape_blocking [OF main_shape])
  have "prefix (map stepOf (callsOf (snd (main e rq [])))) (map stepOf (planCalls (planOf e rq)))"
    by (rule map_mono_prefix [OF shape_prefix [OF main_shape]])
  then show "prefix (map stepOf (callsOf (snd (main e rq [])))) (specSequence rq)"
    using plan_prefix_spec prefix_order.trans by blast
next
  assume d: "fst (main e rq []) = Inr ()"
  from main_shape [of e rq] d have sh: "shape (planOf e rq) (Inr ()) (snd (main e rq []))"
    by simp
  from shape_Done [OF sh] show "settled (snd (main e rq []))" by simp
  from shape_Done [OF sh] plan_complete
  show "map stepOf (callsOf (snd (main e rq []))) = specSequence rq" by blast
next
  fix a x y f s
  assume "createAndInitializePoolIfNecessary a x y f s \<in> set (callsOf (snd (main e rq [])))"
  note m = plan_init [OF main_calls_planned [OF this]]
  from m show "mode rq = Init" "a = NPM_ADDRESS" "(x, y) = orderTokens (tokenAddress rq) WETH_ADDRESS"
    "f = feeTier rq"
    "encodePriceSqrt (roundDouble e)
       (orientPrice (roundDouble e) x (tokenAddress rq)
          (parseFloat e (targetTokensPerWethStr rq))) = Inr s"
    by simp_all
qed

theorem orchestration_sequence_witness:
  "fst (main exampleEnv exampleRequest []) = Inr () \<and>
   blocking (snd (main exampleEnv exampleRequest [])) \<and>
   settled (snd (main exampleEnv exampleRequest [])) \<and>
   map stepOf (callsOf (snd (main exampleEnv exampleRequest []))) = specSequence exampleRequest \<and>
   specSequence exampleRequest =
     [Wrapping, Initializing, Approving ''0x1c'', Approving WETH_ADDRESS, Minting] \<and>
   createAndInitializePoolIfNecessary NPM_ADDRESS ''0x1c'' WETH_ADDRESS (Fin 3000) (2 ^ 95)
     \<in> set (callsOf (snd (main exampleEnv exampleRequest []))) \<and>
   mode exampleRequest = Init \<and>
   (''0x1c'', WETH_ADDRESS) = orderTokens (tokenAddress exampleRequest) WETH_ADDRESS \<and>
   fst (main exampleEnv addRequest []) = Inr () \<and>
   map stepOf (callsOf (snd (main exampleEnv addRequest []))) = specSequence addRequest \<and>
   specSequence addRequest = [Approving ''0x1c'', Approving WETH_ADDRESS, Minting]"
proof -
  have d1: "fst (main exampleEnv exampleRequest []) = Inr ()"
    by (simp add: example_run)
  have d2: "fst (main exampleEnv addRequest []) = Inr ()"
    by (simp add: add_run)
  have i1: "createAndInitializePoolIfNecessary NPM_ADDRESS ''0x1c'' WETH_ADDRESS (Fin 3000) (2 ^ 95)
     \<in> set (callsOf (snd (main exampleEnv exampleRequest [])))"
    using example_init_issued by (simp add: exampleInit_def)
  have s1: "specSequence exampleRequest =
     [Wrapping, Initializing, Approving ''0x1c'', Approving WETH_ADDRESS, Minting]"
    by (simp add: specSequence_def example_defs example_order)
  have s2: "specSequence addRequest = [Approving ''0x1c'', Approving WETH_ADDRESS, Minting]"
    by (simp add: specSequence_def addRequest_def example_defs example_order)
  from d1 d2 i1 s1 s2 orchestration_sequence [of exampleEnv exampleRequest]
    orchestration_sequence [of exampleEnv addRequest]
  show ?thesis by blast
qed

section \<open>A failed confirmation of the initialize call\<close>

text \<open>
  Claim C4. When the wait for the receipt of the initialize call rejects, the run ends
  there with that failure: nothing follows the failed wait, so no approve and no mint
  call is issued, and before the initialize call stands at most the wrap, submitted and
  confirmed once and neither repeated nor undone. In every run a failure is the last
  event and the calls are an initial part of the prescribed sequence: no call is
  retried and nothing is rolled back.
\<close>

theorem init_confirmation_failure:
  assumes "snd (main e rq []) =
             pre @ [Submitted (createAndInitializePoolIfNecessary a x y f s) h, WaitFailed h'] @ post"
  shows "post = [] \<and> h' = h \<and> fst (main e rq []) = Inl ConfirmationError \<and>
         (pre = [] \<or> (\<exists>v h0. pre = [Submitted (deposit WETH_ADDRESS v) h0, Confirmed h0])) \<and>
         blocking (snd (main e rq [])) \<and>
         prefix (map stepOf (callsOf (snd (main e rq [])))) (specSequence rq)"
proof -
  let ?c = "createAndInitializePoolIfNecessary a x y f s"
  from assms have eq: "snd (main e rq []) = pre @ Submitted ?c h # WaitFailed h' # post"
    by simp
  from shape_wait_failed [OF main_shape eq] obtain q
    where w: "post = []" "h' = h" "fst (main e rq []) = Inl ConfirmationError" "settled pre"
      and pl: "planOf e rq = map Inr (callsOf pre) @ Inr ?c # q"
    by auto
  have "planCalls (planOf e rq) = (callsOf pre @ [?c]) @ planCalls q"
    by (simp add: pl planCalls_append)
  then have "prefix (callsOf pre @ [?c]) (planCalls (planOf e rq))"
    by simp
  then have "prefix (map stepOf (callsOf pre @ [?c])) (map stepOf (planCalls (planOf e rq)))"
    by (rule map_mono_prefix)
  with plan_prefix_spec [of e rq]
  have "prefix (map stepOf (callsOf pre) @ [Initializing]) (specSequence rq)"
    using prefix_order.trans by fastforce
  from spec_before_init [OF this]
  have ks: "callsOf pre = [] \<or> (\<exists>c1. callsOf pre = [c1] \<and> stepOf c1 = Wrapping)"
    by auto
  have pre: "pre = [] \<or> (\<exists>v h0. pre = [Submitted (deposit WETH_ADDRESS v) h0, Confirmed h0])"
  proof (cases "callsOf pre = []")
    case True
    with w(4) show ?thesis by (simp add: settled_no_calls)
  next
    case False
    with ks obtain c1 where c1: "callsOf pre = [c1]" "stepOf c1 = Wrapping" by auto
    from c1(2) obtain a1 v where dv: "c1 = deposit a1 v" by (cases c1) auto
    from c1(1) pl have "c1 \<in> set (planCalls (planOf e rq))"
      by (simp add: planCalls_append)
    from plan_deposit [OF this [unfolded dv]] have "a1 = WETH_ADDRESS" by simp
    with settled_one_call [OF w(4) c1(1)] dv show ?thesis by auto
  qed
  have b: "blocking (snd (main e rq []))"
    by (rule shape_blocking [OF main_shape])
  have "prefix (map stepOf (callsOf (snd (main e rq [])))) (map stepOf (planCalls (planOf e rq)))"
    by (rule map_mono_prefix [OF shape_prefix [OF main_shape]])
  with plan_prefix_spec [of e rq]
  have p: "prefix (map stepOf (callsOf (snd (main e rq [])))) (specSequence rq)"
    using prefix_order.trans by blast
  from w pre b p show ?thesis by simp
qed

theorem init_confirmation_failure_witness:
  "snd (main revertingEnv exampleRequest []) =
     [Submitted (deposit WETH_ADDRESS 200000000000000000) ''0x01'', Confirmed ''0x01'']
     @ [Submitted (createAndInitializePoolIfNecessary NPM_ADDRESS ''0x1c'' WETH_ADDRESS
          (Fin 3000) (2 ^ 95)) ''0x02'', WaitFailed ''0x02'']
     @ [] \<and>
   fst (main revertingEnv exampleRequest []) = Inl ConfirmationError \<and>
   blocking (snd (main revertingEnv exampleRequest [])) \<and>
   prefix (map stepOf (callsOf (snd (main revertingEnv exampleRequest []))))
     (specSequence exampleRequest)"
proof -
  have t: "snd (main revertingEnv exampleRequest []) =
     [Submitted (deposit WETH_ADDRESS 200000000000000000) ''0x01'', Confirmed ''0x01'']
     @ [Submitted (createAndInitializePoolIfNecessary NPM_ADDRESS ''0x1c'' WETH_ADDRESS
          (Fin 3000) (2 ^ 95)) ''0x02'', WaitFailed ''0x02'']
     @ []"
    by (simp add: reverting_run exampleInit_def)
  from t init_confirmation_failure [OF t] show ?thesis by blast
qed

section \<open>Validation\<close>

text \<open>
  Claim C1 asks that every validation error abort the run before any call is
  submitted, and that in \<open>Init\<close> mode the check of the target price precede the wrap.
  In \<open>main\<close> the wrap comes first: with a wrap requested and a target price of zero,
  the deposit is submitted and confirmed, and the run then fails the price check.
\<close>

theorem validation_after_wrap_counterexample:
  "fst (main exampleEnv zeroPriceRequest []) = Inl InvalidPriceError \<and>
   callsOf (snd (main exampleEnv zeroPriceRequest [])) =
     [deposit WETH_ADDRESS 200000000000000000]"
  by (simp add: zero_price_run)

text \<open>
  Claim C1, amended. A run that fails the check of the target price is a run in \<open>Init\<close>
  mode whose target is not greater than zero, and it has submitted no initialize,
  approve or mint call: its trace is empty when no wrap was requested, and otherwise
  holds exactly the wrap deposit, submitted and confirmed.
\<close>

theorem invalid_price_after_wrap:
  assumes "fst (main e rq []) = Inl InvalidPriceError"
  shows "mode rq = Init \<and> \<not> gtZero (parseFloat e (targetTokensPerWethStr rq)) \<and>
         (if wrapAmountEth rq = ''0'' then snd (main e rq []) = []
          else \<exists>v h. parseEther e (wrapAmountEth rq) = Some v \<and>
                 snd (main e rq []) = [Submitted (deposit WETH_ADDRESS v) h, Confirmed h])"
proof -
  from main_shape [of e rq] assms
  have "shape (planOf e rq) (Inl InvalidPriceError) (snd (main e rq []))" by simp
  from shape_Invalid [OF this] obtain q
    where st: "settled (snd (main e rq []))"
      and pl: "planOf e rq = map Inr (callsOf (snd (main e rq []))) @ Inl InvalidPriceError # q"
    by auto
  note u = plan_until_invalid_price [OF pl]
  show ?thesis
  proof (cases "wrapAmountEth rq = ''0''")
    case True
    with u st show ?thesis by (simp add: settled_no_calls)
  next
    case False
    with u obtain v where v: "parseEther e (wrapAmountEth rq) = Some v"
      "callsOf (snd (main e rq [])) = [deposit WETH_ADDRESS v]" by auto
    from settled_one_call [OF st v(2)] v(1) False u show ?thesis by simp
  qed
qed

theorem invalid_price_after_wrap_witness:
  "fst (main exampleEnv zeroPriceRequest []) = Inl InvalidPriceError \<and>
   mode zeroPriceRequest = Init \<and>
   \<not> gtZero (parseFloat exampleEnv (targetTokensPerWethStr zeroPriceRequest)) \<and>
   wrapAmountEth zeroPriceRequest \<noteq> ''0'' \<and>
   (\<exists>v h. parseEther exampleEnv (wrapAmountEth zeroPriceRequest) = Some v \<and>
      snd (main exampleEnv zeroPriceRequest []) =
        [Submitted (deposit WETH_ADDRESS v) h, Confirmed h])"
proof -
  have f: "fst (main exampleEnv zeroPriceRequest []) = Inl InvalidPriceError"
    by (simp add: zero_price_run)
  have w: "wrapAmountEth zeroPriceRequest \<noteq> ''0''"
    by (simp add: zeroPriceRequest_def example_defs)
  from f w invalid_price_after_wrap [OF f] show ?thesis by simp
qed

section \<open>The encoder on prices that are not positive\<close>

text \<open>
  Claim C6 asks that the encoder fail on every price \<open>p \<le> 0\<close>, on \<open>p = 0\<close> in
  particular. \<open>encodePriceSqrt\<close> has no check of its own: on zero it returns zero.
\<close>

theorem encoder_zero_counterexample:
  "encodePriceSqrt (roundDouble exampleEnv) (Fin 0) = Inr 0"
  by (simp add: encodePriceSqrt_zero)

text \<open>
  Claim C6, amended. On a negative price the encoder fails, with the RangeError of
  \<open>BigInt\<close> on NaN; on a zero price it returns zero. The error for a price that is
  not positive is raised by the caller: the initialize step of \<open>main\<close> rejects a
  target price that is not greater than zero with InvalidPriceError, before it calls
  the encoder and without submitting anything.
\<close>

theorem encoder_on_nonpositive_prices:
  "(isNeg p \<and> \<not> isZero p \<longrightarrow> encodePriceSqrt rd p = Inl RangeError) \<and>
   (isZero p \<longrightarrow> encodePriceSqrt rd p = Inr 0) \<and>
   (\<not> gtZero (parseFloat e (targetTokensPerWethStr rq)) \<longrightarrow>
      initStep e rq t0 t1 tr = (Inl InvalidPriceError, tr))"
  by (simp add: encodePriceSqrt_negative encodePriceSqrt_zero initStep_def throwE_def)

theorem encoder_on_nonpositive_prices_witness:
  "isNeg (Fin (- 1)) \<and> \<not> isZero (Fin (- 1)) \<and>
   encodePriceSqrt (roundDouble exampleEnv) (Fin (- 1)) = Inl RangeError \<and>
   isZero NegZero \<and> encodePriceSqrt (roundDouble exampleEnv) NegZero = Inr 0 \<and>
   \<not> gtZero (parseFloat exampleEnv (targetTokensPerWethStr zeroPriceRequest)) \<and>
   initStep exampleEnv zeroPriceRequest ''0x1c'' WETH_ADDRESS [] = (Inl InvalidPriceError, [])"
proof -
  have n: "isNeg (Fin (- 1)) \<and> \<not> isZero (Fin (- 1))" by simp
  have z: "isZero NegZero" by simp
  have g: "\<not> gtZero (parseFloat exampleEnv (targetTokensPerWethStr zeroPriceRequest))"
    by (simp add: zeroPriceRequest_def example_defs)
  from n z g
    encoder_on_nonpositive_prices [of "Fin (- 1)" "roundDouble exampleEnv" exampleEnv
      zeroPriceRequest "''0x1c''" WETH_ADDRESS "[]"]
    encoder_on_nonpositive_prices [of NegZero "roundDouble exampleEnv" exampleEnv
      zeroPriceRequest "''0x1c''" WETH_ADDRESS "[]"]
  show ?thesis by blast
qed

section \<open>Ordering a token with itself\<close>

text \<open>
  Claim C7 asks that ordering two identifiers that are equal up to case fail. The
  ordering of \<open>main\<close> is a conditional expression that cannot fail: for the wrapped
  native token as the custom token it gives the pair of that address with itself, and
  the run goes on to its end.
\<close>

theorem same_token_counterexample:
  "orderTokens WETH_ADDRESS WETH_ADDRESS = (WETH_ADDRESS, WETH_ADDRESS) \<and>
   fst (main exampleEnv sameTokenRequest []) = Inr ()"
  by (simp add: same_token_order same_token_run)

text \<open>
  Claim C7, amended. Ordering two identifiers \<open>a\<close> and \<open>b\<close> that are equal up to case
  does not fail: the result is the pair \<open>(b, a)\<close>.
\<close>

theorem orderTokens_same_token:
  assumes "toLowerCase a = toLowerCase b"
  shows "orderTokens a b = (b, a)"
  using assms by (simp add: orderTokens_def)

theorem orderTokens_same_token_witness:
  "toLowerCase ''0xAB'' = toLowerCase ''0xab'' \<and>
   orderTokens ''0xAB'' ''0xab'' = (''0xab'', ''0xAB'')"
proof -
  have h: "toLowerCase ''0xAB'' = toLowerCase ''0xab''"
    by (simp add: toLowerCase_def isUpper_def)
  show ?thesis using h orderTokens_same_token [OF h] by simp
qed

section \<open>When the wrap is submitted\<close>

text \<open>
  Claim C9 asks that no wrap be submitted when the requested amount is zero under any
  spelling, such as \<open>0.0\<close>. \<open>main\<close> compares the amount with the string \<open>0\<close>: an amount
  entered as \<open>0.0\<close> is submitted as a deposit of value zero.
\<close>

theorem zero_wrap_counterexample:
  "wrapAnswer zeroWrapRequest = ''y'' \<and> wrapAmountAnswer zeroWrapRequest = ''0.0'' \<and>
   deposit WETH_ADDRESS 0 \<in> set (callsOf (snd (main exampleEnv zeroWrapRequest [])))"
  by (simp add: zero_wrap_deposit) (simp add: zeroWrapRequest_def exampleRequest_def)

text \<open>
  Claim C9, amended. In \<open>Init\<close> and \<open>Add\<close> mode a deposit is handed to
  \<open>writeContract\<close> if and only if the wrap amount is not the string \<open>0\<close> and
  \<open>parseEther\<close> accepts it; the wrap amount is not the string \<open>0\<close> exactly when the
  wrap question was answered \<open>y\<close> or \<open>yes\<close> and the amount entered is not the string
  \<open>0\<close>. In wrap-only mode a deposit is handed to \<open>writeContract\<close> if and only if
  \<open>parseEther\<close> accepts the amount.
\<close>

theorem wrap_submitted_iff:
  "(mode rq \<noteq> Wrap \<longrightarrow>
      (\<exists>a v. deposit a v \<in> set (callsOf (snd (main e rq [])))) =
      (wrapAmountEth rq \<noteq> ''0'' \<and> parseEther e (wrapAmountEth rq) \<noteq> None)) \<and>
   (wrapAmountEth rq \<noteq> ''0'') =
      ((wrapAnswer rq = ''y'' \<or> wrapAnswer rq = ''yes'') \<and> wrapAmountAnswer rq \<noteq> ''0'') \<and>
   (mode rq = Wrap \<longrightarrow>
      (\<exists>a v. deposit a v \<in> set (callsOf (snd (main e rq [])))) =
      (parseEther e (orDefault (wrapAmountAnswer rq) ''0.1'') \<noteq> None))"
proof (intro conjI impI)
  assume m: "mode rq \<noteq> Wrap"
  show "(\<exists>a v. deposit a v \<in> set (callsOf (snd (main e rq [])))) =
      (wrapAmountEth rq \<noteq> ''0'' \<and> parseEther e (wrapAmountEth rq) \<noteq> None)"
  proof
    assume "\<exists>a v. deposit a v \<in> set (callsOf (snd (main e rq [])))"
    then obtain a v where "deposit a v \<in> set (callsOf (snd (main e rq [])))" by blast
    from plan_deposit [OF main_calls_planned [OF this]] m
    show "wrapAmountEth rq \<noteq> ''0'' \<and> parseEther e (wrapAmountEth rq) \<noteq> None" by simp
  next
    assume "wrapAmountEth rq \<noteq> ''0'' \<and> parseEther e (wrapAmountEth rq) \<noteq> None"
    then obtain v where "wrapAmountEth rq \<noteq> ''0''" "parseEther e (wrapAmountEth rq) = Some v"
      by auto
    from plan_starts_with_wrap [OF m this] obtain p
      where "planOf e rq = Inr (deposit WETH_ADDRESS v) # p" by blast
    from first_call_issued [OF this]
    show "\<exists>a v. deposit a v \<in> set (callsOf (snd (main e rq [])))" by blast
  qed
next
  show "(wrapAmountEth rq \<noteq> ''0'') =
      ((wrapAnswer rq = ''y'' \<or> wrapAnswer rq = ''yes'') \<and> wrapAmountAnswer rq \<noteq> ''0'')"
    by (auto simp: wrapAmountEth_def orDefault_def)
next
  assume m: "mode rq = Wrap"
  show "(\<exists>a v. deposit a v \<in> set (callsOf (snd (main e rq [])))) =
      (parseEther e (orDefault (wrapAmountAnswer rq) ''0.1'') \<noteq> None)"
  proof
    assume "\<exists>a v. deposit a v \<in> set (callsOf (snd (main e rq [])))"
    then obtain a v where "deposit a v \<in> set (callsOf (snd (main e rq [])))" by blast
    from plan_deposit [OF main_calls_planned [OF this]] m
    show "parseEther e (orDefault (wrapAmountAnswer rq) ''0.1'') \<noteq> None" by simp
  next
    assume "parseEther e (orDefault (wrapAmountAnswer rq) ''0.1'') \<noteq> None"
    then obtain v where "parseEther e (orDefault (wrapAmountAnswer rq) ''0.1'') = Some v"
      by auto
    from first_call_issued [OF plan_wrap_only [OF m this]]
    show "\<exists>a v. deposit a v \<in> set (callsOf (snd (main e rq [])))" by blast
  qed
qed

theorem wrap_submitted_iff_witness:
  "mode exampleRequest \<noteq> Wrap \<and>
   (\<exists>a v. deposit a v \<in> set (callsOf (snd (main exampleEnv exampleRequest [])))) \<and>
   wrapAmountEth exampleRequest \<noteq> ''0'' \<and>
   parseEther exampleEnv (wrapAmountEth exampleRequest) \<noteq> None \<and>
   mode wrapOnlyRequest = Wrap \<and>
   (\<exists>a v. deposit a v \<in> set (callsOf (snd (main exampleEnv wrapOnlyRequest [])))) \<and>
   parseEther exampleEnv (orDefault (wrapAmountAnswer wrapOnlyRequest) ''0.1'') \<noteq> None"
proof -
  have m1: "mode exampleRequest \<noteq> Wrap" by (simp add: exampleRequest_def)
  have m2: "mode wrapOnlyRequest = Wrap" by (simp add: wrapOnlyRequest_def)
  have "deposit WETH_ADDRESS 200000000000000000
      \<in> set (callsOf (snd (main exampleEnv exampleRequest [])))"
    by (simp add: example_run)
  then have d1: "\<exists>a v. deposit a v \<in> set (callsOf (snd (main exampleEnv exampleRequest [])))"
    by blast
  have "deposit WETH_ADDRESS 200000000000000000
      \<in> set (callsOf (snd (main exampleEnv wrapOnlyRequest [])))"
    by (simp add: wrap_only_run)
  then have d2: "\<exists>a v. deposit a v \<in> set (callsOf (snd (main exampleEnv wrapOnlyRequest [])))"
    by blast
  from m1 m2 d1 d2 wrap_submitted_iff [of exampleRequest exampleEnv]
    wrap_submitted_iff [of wrapOnlyRequest exampleEnv]
  show ?thesis by blast
qed

end
